theory Spec2Isabelle
  imports Main "HOL-Library.AList" "HOL-Library.Char_ord" "HOL-Library.List_Lexorder"
begin

section \<open>Values, rows and dictionaries\<close>

text \<open>
  The script \<^verbatim>\<open>teaming/extract_providers_to_graphml.py\<close> reads rows from a relational
  store through a cursor, builds a networkx graph and writes it out. A value that a cursor
  hands to Python is \<^verbatim>\<open>None\<close> (SQL NULL), a string or a number.
\<close>

datatype pyval = PyNone | PyStr string | PyInt int

text \<open>
  A cursor row carries its column names (\<^verbatim>\<open>row_obj.cursor_description\<close>) and, position by
  position, its values (\<^verbatim>\<open>row_obj[i]\<close>); the two sequences have the same length, so a row is
  the list of (column name, value) pairs in column order. Column names may repeat
  (\<^verbatim>\<open>select *\<close> over a join). A Python dictionary is an association list with distinct keys;
  \<^const>\<open>AList.update\<close> is the assignment \<^verbatim>\<open>d[k] = v\<close>.
\<close>

type_synonym row = "(string \<times> pyval) list"
type_synonym attrs = "(string \<times> pyval) list"

text \<open>
  \<^verbatim>\<open>row_to_dictionary(row_obj, exclude_None=True)\<close>, lines 56-64. The assignment sits under
  \<^verbatim>\<open>if exclude_None:\<close> with no other branch, so nothing is copied when the flag is off.
\<close>

definition row_to_dictionary :: "row \<Rightarrow> bool \<Rightarrow> attrs" where
  "row_to_dictionary row_obj exclude_None =
     fold (\<lambda>(column_name, v) row_dict.
             if exclude_None then (if v \<noteq> PyNone then AList.update column_name v row_dict else row_dict)
             else row_dict)
          row_obj []"

text \<open>
  The body of the loop of \<^verbatim>\<open>add_nodes_to_graph\<close>, lines 72-76: the attributes of one node.
  \<^verbatim>\<open>if label_name:\<close> holds for a string that is given and not empty.
\<close>

definition node_attributes :: "row \<Rightarrow> string \<Rightarrow> string option \<Rightarrow> attrs" where
  "node_attributes node_row node_type label_name =
     (let attributes = row_to_dictionary node_row True;
          attributes =
            (case label_name of
               None \<Rightarrow> attributes
             | Some l \<Rightarrow>
                 if l \<noteq> [] then
                   (case map_of attributes l of
                      Some v \<Rightarrow> AList.update ''Label'' v attributes
                    | None \<Rightarrow> attributes)
                 else attributes)
      in AList.update ''node_type'' (PyStr node_type) attributes)"

section \<open>The graph\<close>

text \<open>
  A networkx graph: \<^verbatim>\<open>G.node\<close> maps a node to its attribute dictionary and \<^verbatim>\<open>G.edge\<close> maps a
  node to the dictionary of its successors, each with the edge's data. Both are kept as
  association lists, whose order is the order in which Python enumerates the dictionary.
  Every edge of this program is added with \<^verbatim>\<open>weight=\<close> and \<^verbatim>\<open>edge_type=\<close>, so the edge data
  is a record of the two.
\<close>

record edge_data =
  weight :: pyval
  edge_type :: string

record graph =
  directed :: bool
  node :: "(string \<times> attrs) list"
  edge :: "(string \<times> (string \<times> edge_data) list) list"

definition DiGraph :: graph where
  "DiGraph = \<lparr>directed = True, node = [], edge = []\<rparr>"

definition Graph :: graph where
  "Graph = \<lparr>directed = False, node = [], edge = []\<rparr>"

text \<open>\<^verbatim>\<open>d.update(other)\<close> on dictionaries.\<close>

definition dict_update :: "attrs \<Rightarrow> attrs \<Rightarrow> attrs" where
  "dict_update d other = fold (\<lambda>(k, v). AList.update k v) other d"

text \<open>
  \<^verbatim>\<open>G.add_node(n, attr_dict)\<close> of networkx 1.x, the interface the script calls: a new node
  gets the dictionary, a node already present has its dictionary updated.
\<close>

definition add_node :: "string \<Rightarrow> attrs \<Rightarrow> graph \<Rightarrow> graph" where
  "add_node n attr_dict G =
     (if map_of (edge G) n = None
      then G\<lparr>node := node G @ [(n, attr_dict)], edge := edge G @ [(n, [])]\<rparr>
      else G\<lparr>node := AList.map_entry n (\<lambda>d. dict_update d attr_dict) (node G)\<rparr>)"

text \<open>
  \<^verbatim>\<open>G.add_edge(u, v, weight=w, edge_type=t)\<close>: both endpoints are created without attributes
  when missing, then the data of the edge from \<open>u\<close> to \<open>v\<close> is set (an edge already there is
  overwritten); an undirected graph stores the edge under both endpoints.
\<close>

definition add_edge :: "string \<Rightarrow> string \<Rightarrow> pyval \<Rightarrow> string \<Rightarrow> graph \<Rightarrow> graph" where
  "add_edge u v w t G =
     (let G = add_node u [] G;
          G = add_node v [] G;
          datadict = \<lparr>weight = w, edge_type = t\<rparr>;
          G = G\<lparr>edge := AList.map_entry u (AList.update v datadict) (edge G)\<rparr>
      in if directed G then G
         else G\<lparr>edge := AList.map_entry v (AList.update u datadict) (edge G)\<rparr>)"

text \<open>The edges of a graph, in enumeration order, and the list of its nodes.\<close>

definition edges_of :: "graph \<Rightarrow> (string \<times> string \<times> pyval \<times> string) list" where
  "edges_of G =
     concat (map (\<lambda>(node1, nbrs). map (\<lambda>(node2, d). (node1, node2, weight d, edge_type d)) nbrs)
                 (edge G))"

definition nodes_of :: "graph \<Rightarrow> string list" where
  "nodes_of G = map fst (node G)"

section \<open>Importing nodes and edges\<close>

text \<open>
  \<^verbatim>\<open>add_nodes_to_graph(cursor, graph, node_type, label_name)\<close>, lines 67-82. The node's key is
  \<^verbatim>\<open>node.npi\<close>; a cursor row of the node queries is the pair of that key and the row.
\<close>

fun add_nodes_to_graph :: "(string \<times> row) list \<Rightarrow> graph \<Rightarrow> string \<Rightarrow> string option \<Rightarrow> graph" where
  "add_nodes_to_graph [] G node_type label_name = G"
| "add_nodes_to_graph ((key, node_row) # cursor) G node_type label_name =
     add_nodes_to_graph cursor
       (add_node key (node_attributes node_row node_type label_name) G) node_type label_name"

text \<open>
  A row of the edge queries: the three selected columns by position, then the two tier
  columns by name.
\<close>

record edge_row =
  col0 :: string
  col1 :: string
  col2 :: pyval
  to_node_type :: string
  from_node_type :: string

text \<open>The \<^verbatim>\<open>if\<close>/\<^verbatim>\<open>elif\<close> chain of \<^verbatim>\<open>add_edges_to_graph\<close>, lines 91-100.\<close>

definition classify_edge :: "edge_row \<Rightarrow> string" where
  "classify_edge e =
     (if to_node_type e = ''C'' \<and> from_node_type e = ''C'' then ''core-to-core''
      else if to_node_type e = ''L'' \<and> from_node_type e = ''C'' then ''leaf-to-core''
      else if to_node_type e = ''C'' \<and> from_node_type e = ''L'' then ''core-to-leaf''
      else if to_node_type e = ''L'' \<and> from_node_type e = ''L'' then ''leaf-to-leaf''
      else ''None'')"

text \<open>Lines 102-105: the counter of a category starts at zero when the category is first seen.\<close>

definition count_edge_type :: "string \<Rightarrow> (string \<rightharpoonup> int) \<Rightarrow> (string \<rightharpoonup> int)" where
  "count_edge_type t counter_dict =
     (case counter_dict t of
        Some c \<Rightarrow> counter_dict(t \<mapsto> c + 1)
      | None \<Rightarrow> counter_dict(t \<mapsto> 0))"

text \<open>
  \<^verbatim>\<open>add_edges_to_graph(cursor, graph)\<close>, lines 85-113. It returns the graph; the number of
  rows and the counters are what it logs.
\<close>

fun add_edges_loop ::
  "edge_row list \<Rightarrow> graph \<Rightarrow> int \<Rightarrow> (string \<rightharpoonup> int) \<Rightarrow> graph \<times> int \<times> (string \<rightharpoonup> int)" where
  "add_edges_loop [] G i counter_dict = (G, i, counter_dict)"
| "add_edges_loop (e # cursor) G i counter_dict =
     add_edges_loop cursor
       (add_edge (col0 e) (col1 e) (col2 e) (classify_edge e) G)
       (i + 1)
       (count_edge_type (classify_edge e) counter_dict)"

definition add_edges_to_graph :: "edge_row list \<Rightarrow> graph \<Rightarrow> graph \<times> int \<times> (string \<rightharpoonup> int)" where
  "add_edges_to_graph cursor G = add_edges_loop cursor G 0 Map.empty"

section \<open>The relational store and the queries\<close>

text \<open>
  The referral table has the three configured columns (\<^verbatim>\<open>FIELD_NAME_FROM_RELATIONSHIP\<close>,
  \<^verbatim>\<open>FIELD_NAME_TO_RELATIONSHIP\<close>, \<^verbatim>\<open>FIELD_NAME_WEIGHT\<close>); a row of the detail table has
  its \<^verbatim>\<open>npi\<close> and its other columns. Identifiers are strings that are not NULL and fit the
  \<^verbatim>\<open>char(10)\<close> column of the staging table. The selection criteria are a fragment of SQL
  spliced into a \<^verbatim>\<open>where\<close> clause over the join of a referral row and a detail row: either
  the store rejects the fragment or it decides each joined row.
\<close>

record referral =
  field_name_from_relationship :: string
  field_name_to_relationship :: string
  field_name_weight :: pyval

record detail =
  npi :: string
  other_columns :: row

record db =
  referral_table :: "referral list"
  npi_detail_table :: "detail list"

datatype where_criteria = Malformed | Criteria "referral \<Rightarrow> detail \<Rightarrow> bool"

text \<open>The staging table \<^verbatim>\<open>npi_to_export_to_graph (npi, node_type)\<close>.\<close>

type_synonym staging = "(string \<times> string) list"

text \<open>
  SQL leaves the order of the rows of a query open; the model returns them in the order of
  the nested loops over the joined tables. \<^verbatim>\<open>select distinct\<close> and \<^verbatim>\<open>union\<close> drop repeated
  rows (\<^const>\<open>remdups\<close>).

  Lines 151-153: the identifiers inserted with tier \<^verbatim>\<open>'C'\<close>.
\<close>

definition core_node_query :: "db \<Rightarrow> (referral \<Rightarrow> detail \<Rightarrow> bool) \<Rightarrow> string list" where
  "core_node_query D where_fn =
     remdups
       (remdups [npi tnd1. rt1 \<leftarrow> referral_table D, tnd1 \<leftarrow> npi_detail_table D,
                  field_name_from_relationship rt1 = npi tnd1, where_fn rt1 tnd1]
        @ remdups [npi tnd2. rt2 \<leftarrow> referral_table D, tnd2 \<leftarrow> npi_detail_table D,
                    field_name_to_relationship rt2 = npi tnd2, where_fn rt2 tnd2])"

text \<open>
  Line 161, \<^verbatim>\<open>select * from npi_to_export_to_graph neg join detail tnd on tnd.npi = neg.npi\<close>,
  and lines 194-195, the same with \<^verbatim>\<open>where neg.node_type = 'L'\<close>. A row has the columns of the
  staging table, then those of the detail table.
\<close>

definition joined_row :: "string \<times> string \<Rightarrow> detail \<Rightarrow> string \<times> row" where
  "joined_row neg tnd =
     (fst neg,
      [(''npi'', PyStr (fst neg)), (''node_type'', PyStr (snd neg)), (''npi'', PyStr (npi tnd))]
      @ other_columns tnd)"

definition npi_detail_query :: "db \<Rightarrow> staging \<Rightarrow> (string \<times> row) list" where
  "npi_detail_query D T =
     [joined_row neg tnd. neg \<leftarrow> T, tnd \<leftarrow> npi_detail_table D, npi tnd = fst neg]"

definition populate_leaf_nodes_query :: "db \<Rightarrow> staging \<Rightarrow> (string \<times> row) list" where
  "populate_leaf_nodes_query D T =
     [joined_row neg tnd. neg \<leftarrow> T, tnd \<leftarrow> npi_detail_table D, npi tnd = fst neg, snd neg = ''L'']"

text \<open>Lines 180-185: the identifiers inserted with tier \<^verbatim>\<open>'L'\<close>.\<close>

definition add_leaf_node_query :: "db \<Rightarrow> staging \<Rightarrow> string list" where
  "add_leaf_node_query D T =
     filter (\<lambda>n. n \<notin> set (map fst T))
       (remdups
          (remdups [field_name_from_relationship rt1. neg1 \<leftarrow> T, rt1 \<leftarrow> referral_table D,
                     field_name_to_relationship rt1 = fst neg1]
           @ remdups [field_name_to_relationship rt2. neg2 \<leftarrow> T, rt2 \<leftarrow> referral_table D,
                       field_name_from_relationship rt2 = fst neg2]))"

text \<open>
  Lines 203-215, the edges with a core endpoint. Both halves select the to-column first and
  the from-column second.
\<close>

definition edge_row_of :: "referral \<Rightarrow> string \<Rightarrow> string \<Rightarrow> edge_row" where
  "edge_row_of rt to_type from_type =
     \<lparr>col0 = field_name_to_relationship rt, col1 = field_name_from_relationship rt,
      col2 = field_name_weight rt, to_node_type = to_type, from_node_type = from_type\<rparr>"

definition add_core_query :: "db \<Rightarrow> staging \<Rightarrow> edge_row list" where
  "add_core_query D T =
     remdups
       ([edge_row_of rt1 (snd neg1) (snd negf).
           rt1 \<leftarrow> referral_table D,
           neg1 \<leftarrow> T, field_name_to_relationship rt1 = fst neg1,
           negf \<leftarrow> T, fst negf = field_name_from_relationship rt1,
           snd neg1 = ''C'']
        @ [edge_row_of rt2 (snd negt) (snd neg2).
             rt2 \<leftarrow> referral_table D,
             neg2 \<leftarrow> T, field_name_from_relationship rt2 = fst neg2,
             negt \<leftarrow> T, fst negt = field_name_to_relationship rt2,
             snd neg2 = ''C''])"

text \<open>Lines 225-231, the edges between two leaves.\<close>

definition leaf_query :: "db \<Rightarrow> staging \<Rightarrow> edge_row list" where
  "leaf_query D T =
     [edge_row_of rt3 (snd negt3) (snd negf3).
        rt3 \<leftarrow> referral_table D,
        negt3 \<leftarrow> T, field_name_to_relationship rt3 = fst negt3,
        negf3 \<leftarrow> T, field_name_from_relationship rt3 = fst negf3,
        snd negt3 = ''L'' \<and> snd negf3 = ''L'']"

section \<open>Writing the files\<close>

text \<open>
  A CSV file is the list of the rows handed to \<^verbatim>\<open>writerow\<close> so far, each a list of cells.
  Lines 250-255, the two nested loops over \<^verbatim>\<open>ProviderGraph.edge\<close>: iterating over the keys
  of a dictionary and reading the entry at each key enumerates its items.
\<close>

fun write_edge_rows :: "string \<Rightarrow> (string \<times> edge_data) list \<Rightarrow> pyval list list \<Rightarrow> pyval list list" where
  "write_edge_rows node1 [] f = f"
| "write_edge_rows node1 ((node2, edge_data) # nbrs) f =
     write_edge_rows node1 nbrs (f @ [[PyStr node1, PyStr node2, weight edge_data]])"

fun write_edge_loop ::
  "(string \<times> (string \<times> edge_data) list) list \<Rightarrow> pyval list list \<Rightarrow> pyval list list" where
  "write_edge_loop [] f = f"
| "write_edge_loop ((node1, nbrs) # rest) f = write_edge_loop rest (write_edge_rows node1 nbrs f)"

definition write_edge_csv :: "graph \<Rightarrow> pyval list list" where
  "write_edge_csv G = write_edge_loop (edge G) []"

text \<open>
  Lines 263-283. \<^verbatim>\<open>header\<close> is bound in the first iteration (\<^verbatim>\<open>i == 0\<close>) and read in every
  iteration; the value passed for it at the start is never read.
\<close>

definition attribute_cell :: "attrs \<Rightarrow> string \<Rightarrow> pyval" where
  "attribute_cell node_dict attribute =
     (case map_of node_dict attribute of Some v \<Rightarrow> v | None \<Rightarrow> PyStr [])"

fun write_node_loop ::
  "(string \<times> attrs) list \<Rightarrow> nat \<Rightarrow> string list \<Rightarrow> pyval list list \<Rightarrow> pyval list list" where
  "write_node_loop [] i header f = f"
| "write_node_loop ((n, node_dict) # rest) i header f =
     (let header = (if i = 0 then ''node_id'' # sort (map fst node_dict) else header);
          f = (if i = 0 then f @ [map PyStr header] else f);
          row_to_write = PyStr n # map (attribute_cell node_dict) header
      in write_node_loop rest (i + 1) header (f @ [row_to_write]))"

definition write_node_csv :: "graph \<Rightarrow> pyval list list" where
  "write_node_csv G = write_node_loop (node G) 0 [] []"

text \<open>\<^verbatim>\<open>os.path.join\<close> of two components.\<close>

definition path_join :: "string \<Rightarrow> string \<Rightarrow> string" where
  "path_join a b =
     (if b \<noteq> [] \<and> hd b = CHR ''/'' then b
      else if a = [] \<or> last a = CHR ''/'' then a @ b
      else a @ ''/'' @ b)"

datatype file_content = GraphML graph | CSV "pyval list list"

section \<open>The run\<close>

record args =
  file_name_prefix :: string
  add_leaf_to_leaf_edges :: bool
  node_label_name :: "string option"
  add_leaf_nodes :: bool
  graph_type :: string
  csv_output :: bool
  directory :: string

text \<open>The defaults of the keyword arguments, lines 116-119.\<close>

definition default_args :: args where
  "default_args =
     \<lparr>file_name_prefix = [], add_leaf_to_leaf_edges = False,
      node_label_name = Some ''provider_name'', add_leaf_nodes = True,
      graph_type = ''directed'', csv_output = True, directory = ''./''\<rparr>"

datatype py_error = IndexError | UnboundLocalError | QueryError

text \<open>Lines 169-172: the name \<^verbatim>\<open>ProviderGraph\<close> is bound in two cases only.\<close>

definition new_graph :: "string \<Rightarrow> graph option" where
  "new_graph gt =
     (if gt = ''directed'' then Some DiGraph
      else if gt = ''undirected'' then Some Graph
      else None)"

text \<open>Lines 241-283: the files written at the end of a run.\<close>

definition write_files :: "graph \<Rightarrow> args \<Rightarrow> (string \<times> file_content) list" where
  "write_files G a =
     (path_join (directory a) (file_name_prefix a @ ''_provider_graph.graphml''), GraphML G)
     # (if csv_output a then
          [(path_join (directory a) (file_name_prefix a @ ''_edge_list_with_weights.csv''),
            CSV (write_edge_csv G)),
           (path_join (directory a) (file_name_prefix a @ ''_node_db.csv''),
            CSV (write_node_csv G))]
        else [])"

text \<open>
  What a run leaves behind: the staging table, the graph, what each edge import logged
  (number of rows, counters) and the files.
\<close>

record run =
  staging_table :: staging
  provider_graph :: graph
  edge_logs :: "(int \<times> (string \<rightharpoonup> int)) list"
  files :: "(string \<times> file_content) list"

text \<open>Lines 176-198: staging and importing the leaves.\<close>

definition stage_leaf_nodes :: "db \<Rightarrow> args \<Rightarrow> staging \<Rightarrow> staging" where
  "stage_leaf_nodes D a T =
     (if add_leaf_nodes a then T @ map (\<lambda>n. (n, ''L'')) (add_leaf_node_query D T) else T)"

definition import_leaf_nodes :: "db \<Rightarrow> args \<Rightarrow> staging \<Rightarrow> graph \<Rightarrow> graph" where
  "import_leaf_nodes D a T G =
     (if add_leaf_nodes a
      then add_nodes_to_graph (populate_leaf_nodes_query D T) G ''leaf'' (node_label_name a)
      else G)"

text \<open>Lines 200-236: importing the edges.\<close>

definition import_edges :: "db \<Rightarrow> args \<Rightarrow> staging \<Rightarrow> graph \<Rightarrow> graph \<times> (int \<times> (string \<rightharpoonup> int)) list" where
  "import_edges D a T G =
     (let (G, log1) = add_edges_to_graph (add_core_query D T) G
      in if add_leaf_to_leaf_edges a
         then (let (G, log2) = add_edges_to_graph (leaf_query D T) G in (G, [log1, log2]))
         else (G, [log1]))"

text \<open>
  \<^verbatim>\<open>extract_provider_network\<close>, lines 116-283. The staging table is dropped and created
  anew, the core identifiers are inserted (the first statement that contains the selection
  criteria), the core rows are fetched, and only then is the graph created.
\<close>

definition extract_provider_network :: "db \<Rightarrow> where_criteria \<Rightarrow> args \<Rightarrow> py_error + run" where
  "extract_provider_network D where_criteria a =
     (case where_criteria of
        Malformed \<Rightarrow> Inl QueryError
      | Criteria where_fn \<Rightarrow>
          (let T = map (\<lambda>n. (n, ''C'')) (core_node_query D where_fn);
               cursor = npi_detail_query D T
           in case new_graph (graph_type a) of
                None \<Rightarrow> Inl UnboundLocalError
              | Some ProviderGraph \<Rightarrow>
                  (let G = add_nodes_to_graph cursor ProviderGraph ''core'' (node_label_name a);
                       T = stage_leaf_nodes D a T;
                       G = import_leaf_nodes D a T G;
                       (G, logs) = import_edges D a T G
                   in Inr \<lparr>staging_table = T, provider_graph = G, edge_logs = logs,
                           files = write_files G a\<rparr>)))"


text \<open>The identifiers staged with a tier.\<close>

definition staged :: "string \<Rightarrow> staging \<Rightarrow> string list" where
  "staged tier T = [fst neg. neg \<leftarrow> T, snd neg = tier]"

section \<open>The command line\<close>

text \<open>
  Lines 286-306. What the script does with \<^verbatim>\<open>sys.argv\<close>: print the usage text, or call
  \<^verbatim>\<open>extract_provider_network\<close> with a criteria string and keyword arguments; reading
  \<^verbatim>\<open>sys.argv[1]\<close> or \<^verbatim>\<open>sys.argv[2]\<close> of a shorter list raises \<^verbatim>\<open>IndexError\<close>.
\<close>

datatype action = PrintUsage | Extract string args

definition main :: "string list \<Rightarrow> py_error + action" where
  "main argv =
     (let number_of_args = length argv
      in if number_of_args = 1 then Inr PrintUsage
         else if length argv = 3
         then Inr (Extract (argv ! 1) (default_args\<lparr>file_name_prefix := argv ! 2\<rparr>))
         else (let leaf_nodes = (if ''no-leaf-nodes'' \<in> set (drop 3 argv) then False else True);
                   leaf_edges = (if ''leaf-edges'' \<in> set (drop 3 argv) then True else False)
               in if length argv \<le> 2 then Inl IndexError
                  else Inr (Extract (argv ! 1)
                              (default_args\<lparr>file_name_prefix := argv ! 2,
                                            add_leaf_nodes := leaf_nodes,
                                            add_leaf_to_leaf_edges := leaf_edges\<rparr>))))"

text \<open>The scenario of the referral table A to B (5), B to A (3), B to C (1).\<close>

definition scenario_db :: "row \<Rightarrow> row \<Rightarrow> row \<Rightarrow> db" where
  "scenario_db colsA colsB colsC =
     \<lparr>referral_table =
        [\<lparr>field_name_from_relationship = ''A'', field_name_to_relationship = ''B'',
          field_name_weight = PyInt 5\<rparr>,
         \<lparr>field_name_from_relationship = ''B'', field_name_to_relationship = ''A'',
          field_name_weight = PyInt 3\<rparr>,
         \<lparr>field_name_from_relationship = ''B'', field_name_to_relationship = ''C'',
          field_name_weight = PyInt 1\<rparr>],
      npi_detail_table =
        [\<lparr>npi = ''A'', other_columns = colsA\<rparr>,
         \<lparr>npi = ''B'', other_columns = colsB\<rparr>,
         \<lparr>npi = ''C'', other_columns = colsC\<rparr>]\<rparr>"

definition selects_A :: where_criteria where
  "selects_A = Criteria (\<lambda>rt tnd. npi tnd = ''A'')"

section \<open>The record normaliser\<close>

lemma map_of_fold_row:
  "map_of (fold (\<lambda>(column_name, v) row_dict.
             if v \<noteq> PyNone then AList.update column_name v row_dict else row_dict) row_obj d)
   = map_of d ++ map_of (rev (filter (\<lambda>(c, v). v \<noteq> PyNone) row_obj))"
proof (induction row_obj arbitrary: d)
  case Nil
  then show ?case by simp
next
  case (Cons cv row_obj)
  obtain c v where cv: "cv = (c, v)" by (cases cv)
  show ?case
  proof (cases "v = PyNone")
    case True
    then show ?thesis using Cons.IH [of d] by (simp add: cv)
  next
    case False
    then show ?thesis using Cons.IH [of "AList.update c v d"]
      by (auto simp: cv update_conv' map_add_def fun_eq_iff split: option.splits)
  qed
qed

lemma map_of_row_to_dictionary:
  "map_of (row_to_dictionary row_obj True) = map_of (rev (filter (\<lambda>(c, v). v \<noteq> PyNone) row_obj))"
  using map_of_fold_row [of row_obj "[]"] by (simp add: row_to_dictionary_def)

text \<open>
  Claim C3. For every row, tier and optional label field, the attributes of a node, read as
  a mapping, are the columns of the row whose value is not null, keyed by column name (of
  two columns with one name the later one counts), plus \<^verbatim>\<open>Label\<close> with the value of the
  label column when the label field is given, not empty, and among the non-null columns,
  plus \<^verbatim>\<open>node_type\<close> with the tier. The function is total: a null or missing field is
  left out and nothing fails.
\<close>

theorem node_attributes_mapping:
  "map_of (node_attributes node_row tier label_field) =
     (let cols = map_of (rev (filter (\<lambda>(c, v). v \<noteq> PyNone) node_row));
          label = (case label_field of
                     None \<Rightarrow> Map.empty
                   | Some l \<Rightarrow>
                       if l \<noteq> [] then (case cols l of None \<Rightarrow> Map.empty | Some v \<Rightarrow> [''Label'' \<mapsto> v])
                       else Map.empty)
      in (cols ++ label)(''node_type'' \<mapsto> PyStr tier))"
  by (simp add: node_attributes_def Let_def update_conv' map_of_row_to_dictionary
           split: option.splits)

section \<open>The edge classifier\<close>

text \<open>
  The table of the classifier over the two tier columns of a row of the edge queries. The
  category is a function of the two tiers alone; a row whose tiers are both \<^verbatim>\<open>C\<close> is
  core-to-core and one whose tiers are both \<^verbatim>\<open>L\<close> is leaf-to-leaf; the mixed categories
  name the tier of the to-column first; any other tier value gives \<^verbatim>\<open>None\<close>.
\<close>

lemma classify_edge_table:
  "(from_node_type e = ''C'' \<and> to_node_type e = ''C'' \<longrightarrow> classify_edge e = ''core-to-core'')
 \<and> (from_node_type e = ''C'' \<and> to_node_type e = ''L'' \<longrightarrow> classify_edge e = ''leaf-to-core'')
 \<and> (from_node_type e = ''L'' \<and> to_node_type e = ''C'' \<longrightarrow> classify_edge e = ''core-to-leaf'')
 \<and> (from_node_type e = ''L'' \<and> to_node_type e = ''L'' \<longrightarrow> classify_edge e = ''leaf-to-leaf'')
 \<and> (from_node_type e \<notin> {''C'', ''L''} \<or> to_node_type e \<notin> {''C'', ''L''} \<longrightarrow> classify_edge e = ''None'')
 \<and> (from_node_type e' = from_node_type e \<and> to_node_type e' = to_node_type e \<longrightarrow>
      classify_edge e' = classify_edge e)"
  by (auto simp: classify_edge_def)


section \<open>The counters of the edge import\<close>

lemma count_loop:
  "snd (snd (add_edges_loop es G i cd)) c =
     (case cd c of
        Some k \<Rightarrow> Some (k + int (count_list (map classify_edge es) c))
      | None \<Rightarrow> if c \<in> set (map classify_edge es)
                then Some (int (count_list (map classify_edge es) c) - 1) else None)"
proof (induction es arbitrary: G i cd)
  case Nil
  then show ?case by (simp split: option.splits)
next
  case (Cons e es)
  show ?case
    by (simp add: Cons.IH count_edge_type_def split: option.splits)
qed

text \<open>
  Claim C4. In one pass of the edge import the counter of a category is set to zero when
  the category is first seen and incremented at each later occurrence: at the end the
  counter of every category that occurred is its number of occurrences minus one, and a
  category that did not occur has no counter.
\<close>

theorem counter_is_occurrences_minus_one:
  "snd (snd (add_edges_to_graph cursor G)) c =
     (if c \<in> set (map classify_edge cursor)
      then Some (int (count_list (map classify_edge cursor) c) - 1)
      else None)"
  by (simp add: add_edges_to_graph_def count_loop)

section \<open>The files\<close>

lemma write_edge_rows_append:
  "write_edge_rows node1 nbrs f =
     f @ map (\<lambda>(node2, d). [PyStr node1, PyStr node2, weight d]) nbrs"
  by (induction nbrs arbitrary: f) auto

lemma write_edge_loop_append:
  "write_edge_loop es f =
     f @ concat (map (\<lambda>(node1, nbrs).
                        map (\<lambda>(node2, d). [PyStr node1, PyStr node2, weight d]) nbrs) es)"
  by (induction es arbitrary: f) (auto simp: write_edge_rows_append)

text \<open>
  Claim C8. The edge CSV has one row for each directed edge of the graph, in the order in
  which the edges are enumerated, the row being the edge's source, its target and its
  weight; the first row is already an edge, there is no header.
\<close>

theorem edge_csv_rows:
  "write_edge_csv G =
     map (\<lambda>(from_id, to_id, w, t). [PyStr from_id, PyStr to_id, w]) (edges_of G)
   \<and> length (write_edge_csv G) = length (edges_of G)"
proof -
  have "write_edge_csv G =
          map (\<lambda>(from_id, to_id, w, t). [PyStr from_id, PyStr to_id, w]) (edges_of G)"
    by (simp add: write_edge_csv_def write_edge_loop_append edges_of_def map_concat
                  comp_def case_prod_unfold)
  then show ?thesis by simp
qed

lemma write_node_loop_later:
  "write_node_loop nodes (Suc i) header f =
     f @ map (\<lambda>(n, d). PyStr n # map (attribute_cell d) header) nodes"
  by (induction nodes arbitrary: i f) (auto simp: Let_def)

text \<open>
  What the loop of lines 263-283 writes for a graph with at least one node: the header
  \<^verbatim>\<open>node_id\<close> followed by the sorted attribute names of the first enumerated node, then
  for each node, in enumeration order, the node's id followed by one cell for every entry
  of the header, \<^verbatim>\<open>node_id\<close> included.
\<close>

lemma write_node_csv_rows:
  assumes "node G = (n0, d0) # rest"
  shows "write_node_csv G =
           map PyStr (''node_id'' # sort (map fst d0))
           # map (\<lambda>(n, d). PyStr n # map (\<lambda>a. case map_of d a of Some v \<Rightarrow> v | None \<Rightarrow> PyStr [])
                                           (''node_id'' # sort (map fst d0)))
                 (node G)"
  using assms
  by (simp add: write_node_csv_def write_node_loop_later Let_def attribute_cell_def [abs_def])

text \<open>
  Claim C7. The node CSV has the header \<^verbatim>\<open>node_id\<close> plus the sorted attribute names of
  the first node, then for each node a row with the node's id and, under each attribute
  column, the node's value or the empty string; an attribute that the first node lacks is
  in no column. The code misses this. For the graph with node A (npi, node_type) and node B
  (npi, node_type and an attribute node_id = n2) the header has three columns and every
  row has four cells: the loop over the header also visits \<^verbatim>\<open>node_id\<close>, so the values
  stand one column to the right of their names, and the attribute node_id of B, which A
  lacks, is written.
\<close>

theorem node_csv_rows_misaligned:
  "write_node_csv
     \<lparr>directed = True,
      node = [(''A'', [(''npi'', PyStr ''A''), (''node_type'', PyStr ''core'')]),
              (''B'', [(''npi'', PyStr ''B''), (''node_type'', PyStr ''leaf''),
                       (''node_id'', PyStr ''n2'')])],
      edge = [(''A'', []), (''B'', [])]\<rparr>
   = [[PyStr ''node_id'', PyStr ''node_type'', PyStr ''npi''],
      [PyStr ''A'', PyStr [], PyStr ''core'', PyStr ''A''],
      [PyStr ''B'', PyStr ''n2'', PyStr ''leaf'', PyStr ''B'']]"
  by (simp add: write_node_csv_def Let_def attribute_cell_def)

section \<open>The command line\<close>

text \<open>
  Claim C9, as the code has it. With no argument the script prints the usage text and
  extracts nothing; with the criteria and the prefix alone it extracts with leaf nodes and
  without leaf-to-leaf edges; with more arguments it extracts with leaf nodes unless
  \<^verbatim>\<open>no-leaf-nodes\<close> is among the arguments after the prefix, and with leaf-to-leaf edges
  exactly when \<^verbatim>\<open>leaf-edges\<close> is among them.
\<close>

theorem main_dispatch:
  "(length argv = 1 \<longrightarrow> main argv = Inr PrintUsage)
 \<and> (length argv = 3 \<longrightarrow>
      (\<exists>a. main argv = Inr (Extract (argv ! 1) a) \<and> file_name_prefix a = argv ! 2
           \<and> add_leaf_nodes a \<and> \<not> add_leaf_to_leaf_edges a))
 \<and> (3 < length argv \<longrightarrow>
      (\<exists>a. main argv = Inr (Extract (argv ! 1) a) \<and> file_name_prefix a = argv ! 2
           \<and> (add_leaf_nodes a \<longleftrightarrow> ''no-leaf-nodes'' \<notin> set (drop 3 argv))
           \<and> (add_leaf_to_leaf_edges a \<longleftrightarrow> ''leaf-edges'' \<in> set (drop 3 argv))))"
  by (simp add: main_def default_args_def Let_def)

theorem main_dispatch_witness:
  "main [''extract_providers_to_graphml.py''] = Inr PrintUsage
 \<and> (\<exists>a. main [''extract_providers_to_graphml.py'', ''zip5 = 02535'', ''mi_prov'']
            = Inr (Extract ''zip5 = 02535'' a)
        \<and> file_name_prefix a = ''mi_prov'' \<and> add_leaf_nodes a \<and> \<not> add_leaf_to_leaf_edges a)
 \<and> (\<exists>a. main [''extract_providers_to_graphml.py'', ''zip5 = 02535'', ''mi_prov'',
                 ''no-leaf-nodes'', ''leaf-edges'']
            = Inr (Extract ''zip5 = 02535'' a)
        \<and> file_name_prefix a = ''mi_prov'' \<and> \<not> add_leaf_nodes a \<and> add_leaf_to_leaf_edges a)"
  using main_dispatch [of "[''extract_providers_to_graphml.py'']"]
        main_dispatch [of "[''extract_providers_to_graphml.py'', ''zip5 = 02535'', ''mi_prov'']"]
        main_dispatch [of "[''extract_providers_to_graphml.py'', ''zip5 = 02535'', ''mi_prov'',
                            ''no-leaf-nodes'', ''leaf-edges'']"]
  by simp

text \<open>
  The claim as written fails for the one argument count it does not name: with the
  criteria alone the script raises \<^verbatim>\<open>IndexError\<close> and extracts nothing.
\<close>

theorem main_one_argument_counterexample:
  "main [''extract_providers_to_graphml.py'', ''zip5 = 02535''] = Inl IndexError"
  by (simp add: main_def)

section \<open>The run\<close>

text \<open>
  Claim C10. With the graph type \<^verbatim>\<open>directed\<close> or \<^verbatim>\<open>undirected\<close> the name of the graph is
  bound before the first nodes are added and the run does not end in an unbound name; with
  any other graph type no graph is created and, the criteria being accepted by the store,
  the run ends at the first node import with the unbound name.
\<close>

theorem graph_bound_iff:
  "(graph_type a = ''directed'' \<or> graph_type a = ''undirected'' \<longrightarrow>
      new_graph (graph_type a) \<noteq> None
      \<and> extract_provider_network D w a \<noteq> Inl UnboundLocalError)
 \<and> (graph_type a \<noteq> ''directed'' \<and> graph_type a \<noteq> ''undirected'' \<longrightarrow>
      new_graph (graph_type a) = None
      \<and> extract_provider_network D (Criteria where_fn) a = Inl UnboundLocalError)"
  by (cases w) (auto simp: extract_provider_network_def new_graph_def Let_def split: prod.splits)

theorem graph_bound_iff_witness:
  "new_graph ''directed'' \<noteq> None
 \<and> extract_provider_network (scenario_db [] [] []) selects_A default_args \<noteq> Inl UnboundLocalError
 \<and> new_graph ''tree'' = None
 \<and> extract_provider_network (scenario_db [] [] []) (Criteria (\<lambda>rt tnd. npi tnd = ''A''))
      (default_args\<lparr>graph_type := ''tree''\<rparr>) = Inl UnboundLocalError"
  using graph_bound_iff [of default_args "scenario_db [] [] []" selects_A "\<lambda>rt tnd. npi tnd = ''A''"]
        graph_bound_iff [of "default_args\<lparr>graph_type := ''tree''\<rparr>" "scenario_db [] [] []"
                            selects_A "\<lambda>rt tnd. npi tnd = ''A''"]
  by (simp add: default_args_def)

section \<open>The node sets\<close>

lemma scenario_staging_core:
  "core_node_query (scenario_db colsA colsB colsC) (\<lambda>rt tnd. npi tnd = ''A'') = [''A'']"
  by (simp add: core_node_query_def scenario_db_def)

lemma scenario_leaf:
  "add_leaf_node_query (scenario_db colsA colsB colsC) [(''A'', ''C'')] = [''B'']"
  by (simp add: add_leaf_node_query_def scenario_db_def)

lemma scenario_core_edges:
  "add_core_query (scenario_db colsA colsB colsC) [(''A'', ''C''), (''B'', ''L'')] =
     [\<lparr>col0 = ''A'', col1 = ''B'', col2 = PyInt 3, to_node_type = ''C'', from_node_type = ''L''\<rparr>,
      \<lparr>col0 = ''B'', col1 = ''A'', col2 = PyInt 5, to_node_type = ''L'', from_node_type = ''C''\<rparr>]"
  by (simp add: add_core_query_def scenario_db_def edge_row_of_def)

lemma scenario_leaf_edges:
  "leaf_query (scenario_db colsA colsB colsC) [(''A'', ''C''), (''B'', ''L'')] = []"
  by (simp add: leaf_query_def scenario_db_def edge_row_of_def)

lemma scenario_core_rows:
  "npi_detail_query (scenario_db colsA colsB colsC) [(''A'', ''C'')] =
     [joined_row (''A'', ''C'') \<lparr>npi = ''A'', other_columns = colsA\<rparr>]"
  by (simp add: npi_detail_query_def scenario_db_def)

lemma scenario_leaf_rows:
  "populate_leaf_nodes_query (scenario_db colsA colsB colsC) [(''A'', ''C''), (''B'', ''L'')] =
     [joined_row (''B'', ''L'') \<lparr>npi = ''B'', other_columns = colsB\<rparr>]"
  by (simp add: populate_leaf_nodes_query_def scenario_db_def)

lemmas scenario_queries =
  scenario_staging_core scenario_leaf scenario_core_edges scenario_leaf_edges
  scenario_core_rows scenario_leaf_rows

lemmas run_defs =
  extract_provider_network_def new_graph_def DiGraph_def Let_def
  stage_leaf_nodes_def import_leaf_nodes_def import_edges_def add_edges_to_graph_def
  joined_row_def add_node_def add_edge_def classify_edge_def

lemma scenario_outcome:
  "\<exists>r. extract_provider_network (scenario_db colsA colsB colsC) selects_A
          (a\<lparr>add_leaf_nodes := True, graph_type := ''directed''\<rparr>) = Inr r
       \<and> staging_table r = [(''A'', ''C''), (''B'', ''L'')]
       \<and> nodes_of (provider_graph r) = [''A'', ''B'']
       \<and> edges_of (provider_graph r) =
           [(''A'', ''B'', PyInt 3, ''core-to-leaf''), (''B'', ''A'', PyInt 5, ''leaf-to-core'')]"
  by (auto simp add: run_defs selects_A_def scenario_queries edges_of_def nodes_of_def
        split: prod.splits)

lemma default_args_leaf_directed:
  "default_args = default_args\<lparr>add_leaf_nodes := True, graph_type := ''directed''\<rparr>"
  "default_args\<lparr>add_leaf_to_leaf_edges := True\<rparr>
     = default_args\<lparr>add_leaf_to_leaf_edges := True\<rparr>\<lparr>add_leaf_nodes := True, graph_type := ''directed''\<rparr>"
  by (simp_all add: default_args_def)


lemma staged_append: "staged t (xs @ ys) = staged t xs @ staged t ys"
  by (simp add: staged_def)

lemma staged_tagged: "staged t (map (\<lambda>n. (n, t')) ns) = (if t = t' then ns else [])"
  by (induction ns) (auto simp: staged_def)

lemma distinct_core_node_query: "distinct (core_node_query D where_fn)"
  by (simp add: core_node_query_def)

lemma distinct_add_leaf_node_query: "distinct (add_leaf_node_query D T)"
  by (simp add: add_leaf_node_query_def)

lemma add_leaf_node_query_excludes: "set (add_leaf_node_query D T) \<inter> set (map fst T) = {}"
  by (auto simp: add_leaf_node_query_def)

lemma populate_leaf_keys:
  "set (map fst (populate_leaf_nodes_query D T)) \<subseteq> set (staged ''L'' T)"
  by (auto simp: populate_leaf_nodes_query_def joined_row_def staged_def split: if_splits)

text \<open>
  Claim C5. In the staging table of a run every entity has the tier \<^verbatim>\<open>C\<close> or the tier
  \<^verbatim>\<open>L\<close> and is staged once, so no identifier is staged both as core and as leaf; no row
  fetched for the leaf import belongs to an identifier staged as core; and, for any staging
  table, the leaf query returns no identifier that is already staged.
\<close>

theorem staged_tiers_disjoint:
  assumes "extract_provider_network D w a = Inr r"
  shows "(\<forall>neg \<in> set (staging_table r). snd neg = ''C'' \<or> snd neg = ''L'')
       \<and> distinct (map fst (staging_table r))
       \<and> set (staged ''C'' (staging_table r)) \<inter> set (staged ''L'' (staging_table r)) = {}
       \<and> set (map fst (populate_leaf_nodes_query D (staging_table r)))
           \<inter> set (staged ''C'' (staging_table r)) = {}
       \<and> set (add_leaf_node_query D T) \<inter> set (map fst T) = {}"
proof -
  obtain where_fn where w: "w = Criteria where_fn"
    using assms by (cases w) (auto simp: extract_provider_network_def)
  define T0 where "T0 = map (\<lambda>n. (n, ''C'')) (core_node_query D where_fn)"
  have st: "staging_table r = stage_leaf_nodes D a T0"
    using assms
    by (auto simp: w extract_provider_network_def Let_def T0_def split: option.splits prod.splits)
  have fst0: "map fst T0 = core_node_query D where_fn"
    by (simp add: T0_def comp_def)
  have d: "distinct (map fst (stage_leaf_nodes D a T0))"
    using add_leaf_node_query_excludes [of D T0]
    by (auto simp: stage_leaf_nodes_def fst0 comp_def distinct_core_node_query
                   distinct_add_leaf_node_query)
  have t: "\<forall>neg \<in> set (stage_leaf_nodes D a T0). snd neg = ''C'' \<or> snd neg = ''L''"
    by (auto simp: stage_leaf_nodes_def T0_def)
  have i: "set (staged ''C'' (stage_leaf_nodes D a T0)) \<inter> set (staged ''L'' (stage_leaf_nodes D a T0)) = {}"
    using add_leaf_node_query_excludes [of D T0]
    by (auto simp: stage_leaf_nodes_def staged_append staged_tagged T0_def comp_def)
  have p: "set (map fst (populate_leaf_nodes_query D (stage_leaf_nodes D a T0)))
           \<inter> set (staged ''C'' (stage_leaf_nodes D a T0)) = {}"
    using i populate_leaf_keys [of D "stage_leaf_nodes D a T0"] by blast
  show ?thesis using d t i p add_leaf_node_query_excludes [of D T] by (simp add: st)
qed

theorem staged_tiers_disjoint_witness:
  "\<exists>r. extract_provider_network (scenario_db [] [] []) selects_A default_args = Inr r
       \<and> staging_table r = [(''A'', ''C''), (''B'', ''L'')]
       \<and> distinct (map fst (staging_table r))
       \<and> set (staged ''C'' (staging_table r)) \<inter> set (staged ''L'' (staging_table r)) = {}"
proof -
  obtain r where r: "extract_provider_network (scenario_db [] [] []) selects_A default_args = Inr r"
    and s: "staging_table r = [(''A'', ''C''), (''B'', ''L'')]"
    using scenario_outcome [of "[]" "[]" "[]" default_args]
    unfolding default_args_leaf_directed(1) [symmetric] by blast
  show ?thesis
    using staged_tiers_disjoint [OF r, of "[]"] r s by blast
qed

lemma core_node_query_no_match:
  assumes "\<forall>rt \<in> set (referral_table D). \<forall>tnd \<in> set (npi_detail_table D). \<not> where_fn rt tnd"
  shows "core_node_query D where_fn = []"
  using assms by (auto simp: core_node_query_def)

lemma queries_on_empty_staging:
  "npi_detail_query D [] = []" "populate_leaf_nodes_query D [] = []"
  "add_leaf_node_query D [] = []" "add_core_query D [] = []" "leaf_query D [] = []"
  by (simp_all add: npi_detail_query_def populate_leaf_nodes_query_def add_leaf_node_query_def
                    add_core_query_def leaf_query_def)

text \<open>
  Claim C6. When the selection criteria hold for no row of the detail table (joined to any
  referral), a run with a supported graph type succeeds: nothing is staged as core or as
  leaf, whether or not leaf nodes are asked for, the graph has no node and no edge, each
  edge import reads zero rows, and the graph file is written with the empty graph.
\<close>

theorem no_match_run:
  assumes "\<forall>rt \<in> set (referral_table D). \<forall>tnd \<in> set (npi_detail_table D). \<not> where_fn rt tnd"
      and "graph_type a = ''directed'' \<or> graph_type a = ''undirected''"
  shows "\<exists>r. extract_provider_network D (Criteria where_fn) a = Inr r
             \<and> staging_table r = []
             \<and> staged ''C'' (staging_table r) = [] \<and> staged ''L'' (staging_table r) = []
             \<and> nodes_of (provider_graph r) = [] \<and> edges_of (provider_graph r) = []
             \<and> map fst (edge_logs r) = (if add_leaf_to_leaf_edges a then [0, 0] else [0])
             \<and> hd (files r) =
                 (path_join (directory a) (file_name_prefix a @ ''_provider_graph.graphml''),
                  GraphML \<lparr>directed = (graph_type a = ''directed''), node = [], edge = []\<rparr>)"
  using assms(2)
  by (auto simp add: extract_provider_network_def core_node_query_no_match [OF assms(1)]
        queries_on_empty_staging new_graph_def DiGraph_def Graph_def Let_def
        stage_leaf_nodes_def import_leaf_nodes_def import_edges_def add_edges_to_graph_def
        staged_def nodes_of_def edges_of_def write_files_def
        split: prod.splits)

theorem no_match_run_witness:
  "\<exists>r. extract_provider_network (scenario_db [] [] []) (Criteria (\<lambda>rt tnd. npi tnd = ''Z''))
          default_args = Inr r
       \<and> staging_table r = [] \<and> nodes_of (provider_graph r) = []
       \<and> edges_of (provider_graph r) = []
       \<and> map fst (edge_logs r) = [0]
       \<and> hd (files r) =
           (''./_provider_graph.graphml'', GraphML \<lparr>directed = True, node = [], edge = []\<rparr>)"
proof -
  have h1: "\<forall>rt \<in> set (referral_table (scenario_db [] [] [])).
              \<forall>tnd \<in> set (npi_detail_table (scenario_db [] [] [])). \<not> npi tnd = ''Z''"
    by (simp add: scenario_db_def)
  have h2: "graph_type default_args = ''directed'' \<or> graph_type default_args = ''undirected''"
    by (simp add: default_args_def)
  show ?thesis
    using no_match_run [of "scenario_db [] [] []" "\<lambda>rt tnd. npi tnd = ''Z''" default_args, OF h1 h2]
    by (auto simp add: default_args_def path_join_def)
qed

section \<open>The scenario\<close>



end
